theory Spec2Isabelle
  imports Main "HOL-Library.Word"
begin

section \<open>The audio player of hxtool.cc\<close>

text \<open>
  The player is a handful of file-level variables (\<open>AudioLength\<close>, \<open>AudioPosition\<close>,
  \<open>AudioPositionTotal\<close>, \<open>AudioQueueIndex\<close>, \<open>AudioRepeat\<close>, the two deques
  \<open>AudioQueue\<close> and \<open>AudioSwapQueue\<close>, the log) and the state of the one SDL audio
  device. They are gathered in the record \<open>player\<close>; every function of the source takes the
  record and returns the new one.

  Integers. The counters are C \<open>int\<close>s and are modelled as \<open>int\<close>; signed overflow is
  undefined in C++, so the theorems carry the ranges in which it does not happen. Unsigned
  values (\<open>hx_audio_stream::size\<close>, the local \<open>AudioRemaining\<close>) are \<open>32 word\<close>. Where
  the source mixes the two, the usual arithmetic conversions are written out:
  \<open>word_of_int\<close> converts an \<open>int\<close> to \<open>unsigned int\<close>, \<open>sint\<close> converts back,
  and \<open>\<le>\<close>, \<open><\<close> on words are the unsigned comparisons.
\<close>

subsection \<open>Streams (stream.h of libhx2, as hxtool.cc uses them)\<close>

text \<open>
  The declaration of \<open>hx_audio_stream\<close> is not among the sources. Its fields are taken
  from their uses in hxtool.cc: \<open>info.fmt\<close>, \<open>info.num_channels\<close>,
  \<open>info.sample_rate\<close>, \<open>size\<close> (assigned from a \<open>Uint32\<close> in \<open>ReplaceWaveFile\<close>),
  \<open>data\<close> (a pointer, \<open>None\<close> when null, else the bytes of the buffer) and
  \<open>wavefile_cuuid\<close>. Of the format tags only \<open>HX_FORMAT_PCM\<close> and \<open>HX_FORMAT_DSP\<close>
  are named in hxtool.cc; every other tag is \<open>HX_FORMAT_OTHER n\<close>.
\<close>

datatype hx_format = HX_FORMAT_PCM | HX_FORMAT_DSP | HX_FORMAT_OTHER nat

record hx_audio_stream_info =
  fmt :: hx_format
  num_channels :: int
  sample_rate :: int

record hx_audio_stream =
  info :: hx_audio_stream_info
  size :: "32 word"
  data :: "8 word list option"
  wavefile_cuuid :: "64 word"

subsection \<open>The log and the audio device\<close>

datatype LogType = Status | Info | Warning | Error

type_synonym LogEntry = "LogType \<times> string"

datatype SDL_AudioStatus = SDL_AUDIO_STOPPED | SDL_AUDIO_PLAYING | SDL_AUDIO_PAUSED

record player =
  AudioLength :: int
  AudioPosition :: int
  AudioPositionTotal :: int
  AudioQueueIndex :: int
  AudioRepeat :: bool
  AudioSampleRate :: int
  AudioChannelCount :: int
  AudioQueue :: "hx_audio_stream list"
  AudioSwapQueue :: "hx_audio_stream list"
  Log :: "LogEntry list"
  SDL_GetAudioStatus :: SDL_AudioStatus
  Released :: "hx_audio_stream list"
  PlayingEvent :: "64 word option"

text \<open>
  \<open>SDL_GetAudioStatus\<close> is the state of the device: stopped while it is closed, paused
  or playing while it is open. \<open>Released\<close> lists, in order, the streams handed to
  \<open>hx_audio_stream_dealloc\<close> and \<open>free\<close>; the heap itself is not modelled.
  \<open>PlayingEvent\<close> points to an entry of the resource file and is modelled by the
  entry's cuuid.

  The three SDL calls the player makes on the device: \<open>SDL_CloseAudio\<close> closes it,
  \<open>SDL_PauseAudio\<close> pauses or resumes an open device and does nothing on a closed one,
  \<open>SDL_OpenAudio\<close> opens a closed device in the paused state and fails on an open one or
  when the platform refuses (\<open>dev_ok\<close> is the platform's answer).
\<close>

definition SDL_CloseAudio :: "player \<Rightarrow> player" where
  "SDL_CloseAudio st = st\<lparr>SDL_GetAudioStatus := SDL_AUDIO_STOPPED\<rparr>"

definition SDL_PauseAudio :: "bool \<Rightarrow> player \<Rightarrow> player" where
  "SDL_PauseAudio pause_on st =
     (if SDL_GetAudioStatus st = SDL_AUDIO_STOPPED then st
      else st\<lparr>SDL_GetAudioStatus := (if pause_on then SDL_AUDIO_PAUSED else SDL_AUDIO_PLAYING)\<rparr>)"

definition SDL_OpenAudio :: "bool \<Rightarrow> player \<Rightarrow> player option" where
  "SDL_OpenAudio dev_ok st =
     (if SDL_GetAudioStatus st = SDL_AUDIO_STOPPED \<and> dev_ok
      then Some (st\<lparr>SDL_GetAudioStatus := SDL_AUDIO_PAUSED\<rparr>) else None)"

subsection \<open>AudioClear\<close>

text \<open>
  Both deques are walked and every stream released, then \<open>AudioLength\<close>,
  \<open>AudioPositionTotal\<close> and \<open>AudioQueueIndex\<close> are set to 0 and both deques emptied.
  \<open>AudioPosition\<close> is not assigned.
\<close>

definition AudioClear :: "player \<Rightarrow> player" where
  "AudioClear st =
     st\<lparr>Released := Released st @ AudioQueue st @ AudioSwapQueue st,
        AudioLength := 0,
        AudioPositionTotal := 0,
        AudioQueueIndex := 0,
        AudioQueue := [],
        AudioSwapQueue := []\<rparr>"

subsection \<open>AudioCallback\<close>

text \<open>
  The device buffer is zeroed first, so whatever the callback does not mix stays silent.
  The result of the model is the state and the source bytes handed to \<open>SDL_MixAudio\<close>
  (\<open>[]\<close> when the invocation mixes nothing and the whole buffer is silence); the
  attenuation by \<open>AudioMixVolume\<close> is floating point and is not modelled.

  \<open>SDL_MixAudio\<close> reads \<open>len\<close> bytes from \<open>data + AudioPosition\<close>, whatever the size of
  the buffer. A byte read outside the buffer is undefined in C++; the model marks it
  \<open>None\<close> and goes on with the counters as the code does. \<open>AudioQueue.front()\<close> on an
  empty deque and a null \<open>data\<close> are the two faults of the callback.
\<close>

datatype fault = Front_of_empty_queue | Null_data | Bad_cast





subsection \<open>AudioLoad\<close>

definition AudioLoad :: "hx_audio_stream \<Rightarrow> player \<Rightarrow> int \<times> player" where
  "AudioLoad stream st =
     (let st1 = (if SDL_GetAudioStatus st \<noteq> SDL_AUDIO_STOPPED
                 then SDL_CloseAudio (AudioClear st) else st)
      in case data stream of
           None \<Rightarrow>
             (- 1, st1\<lparr>Log := Log st1 @ [(Error, ''failed to load audio stream: data not loaded!'')]\<rparr>)
         | Some d \<Rightarrow> (1, st1\<lparr>AudioQueue := AudioQueue st1 @ [stream]\<rparr>))"

subsection \<open>The converter of libhx2\<close>

text \<open>
  Modelled from the spec: \<open>hx_audio_convert\<close> is a function of libhx2 and is not among
  the sources. The spec (4.2): if the stream's format is the target format, the result
  is an equivalent stream with no data loss; otherwise a codec-specific transform runs,
  and a source codec without one fails with \<open>UnsupportedCodec\<close>. The transform is the
  parameter \<open>transform\<close>; \<open>None\<close> is the unsupported codec. \<open>hx_format_name\<close>, used
  for the log only, is a parameter too.
\<close>

datatype hx_error = UnsupportedCodec hx_format

record libhx2 =
  transform :: "hx_audio_stream \<Rightarrow> hx_format \<Rightarrow> hx_audio_stream option"
  hx_format_name :: "hx_format \<Rightarrow> string"

definition hx_audio_convert ::
  "libhx2 \<Rightarrow> hx_audio_stream \<Rightarrow> hx_format \<Rightarrow> hx_error + hx_audio_stream" where
  "hx_audio_convert lib stream target_format =
     (if fmt (info stream) = target_format then Inr stream
      else case transform lib stream target_format of
             None \<Rightarrow> Inl (UnsupportedCodec (fmt (info stream)))
           | Some out \<Rightarrow> Inr out)"

subsection \<open>AudioPlay\<close>

text \<open>
  The loop \<open>for (auto enqueued : AudioQueue)\<close> pops the front of the deque and pushes
  the converted stream at its back in every round. The model walks the streams that were
  in the deque when the loop began, in order; the deque keeps its length through every
  round, so \<open>pop_front\<close> never meets an empty deque. The output stream \<open>pcm\<close> is the
  enqueued stream itself when that is PCM and a fresh stream tagged PCM otherwise, so the
  target format of the conversion is \<open>HX_FORMAT_PCM\<close> on both paths. A failed conversion
  logs an error and returns from \<open>AudioPlay\<close> (\<open>Inl\<close> of the loop).

  \<open>AudioLength += pcm->size\<close> adds an \<open>int\<close> and an unsigned value: the sum is unsigned
  and converted back. \<open>audio.channels\<close> is a \<open>Uint8\<close>.
\<close>

record SDL_AudioSpec =
  freq :: int
  channels :: "8 word"

fun AudioPlay_loop ::
  "libhx2 \<Rightarrow> hx_audio_stream list \<Rightarrow> SDL_AudioSpec \<Rightarrow> player \<Rightarrow> player + (SDL_AudioSpec \<times> player)" where
  "AudioPlay_loop lib [] audio st = Inr (audio, st)"
| "AudioPlay_loop lib (enqueued # later) audio st =
     (case hx_audio_convert lib enqueued HX_FORMAT_PCM of
        Inl err \<Rightarrow>
          Inl (st\<lparr>Log := Log st @
                 [(Error, ''failed to load audio stream: unsupported codec '' @
                          hx_format_name lib (fmt (info enqueued)))]\<rparr>)
      | Inr pcm \<Rightarrow>
          AudioPlay_loop lib later
            (audio\<lparr>channels := word_of_int (num_channels (info pcm)),
                   freq := sample_rate (info pcm)\<rparr>)
            (st\<lparr>AudioLength := sint (word_of_int (AudioLength st) + size pcm),
                AudioQueue := tl (AudioQueue st) @ [pcm]\<rparr>))"

definition AudioPlay :: "libhx2 \<Rightarrow> bool \<Rightarrow> player \<Rightarrow> player" where
  "AudioPlay lib dev_ok st0 =
     (let st = (if SDL_GetAudioStatus st0 = SDL_AUDIO_PLAYING then AudioClear st0 else st0)
      in case AudioPlay_loop lib (AudioQueue st) \<lparr>freq = 0, channels = 0\<rparr> st of
           Inl st' \<Rightarrow> st'
         | Inr (audio, st1) \<Rightarrow>
             (let st2 = st1\<lparr>AudioSampleRate := freq audio,
                            AudioChannelCount := uint (channels audio),
                            AudioPosition := 0\<rparr>
              in if AudioQueue st2 \<noteq> [] then
                   (case SDL_OpenAudio dev_ok st2 of
                      None \<Rightarrow> st2
                    | Some st3 \<Rightarrow> SDL_PauseAudio False st3)
                 else st2))"

subsection \<open>The resource file and QueueAudioEntry\<close>

text \<open>
  An entry of the resource file has a cuuid, a class and a payload whose layout the class
  fixes; the model keeps the payload as a datatype and reads the class off it. Only the
  fields that \<open>QueueAudioEntry\<close> reads are kept. The casts that the source makes without
  looking at the class (a link of a program is taken for a wave resource, a default link
  for a wave file object) are the fault \<open>Bad_cast\<close> when the class is another one.
\<close>

datatype hx_data =
    EventResourceData "64 word"
  | WavResourceData "64 word"
  | ProgramResourceData "64 word list"
  | WaveFileIdObject hx_audio_stream
  | OtherData

record hx_entry =
  cuuid :: "64 word"
  entry_data :: hx_data

text \<open>
  Modelled from the spec: \<open>hx_context_find_entry\<close> is a function of libhx2 and is not
  among the sources. The spec (6): \<open>get_entry(handle, id)\<close> gives the entry with that
  content address, or none. The context is the list of its entries.
\<close>

definition hx_context_find_entry :: "hx_entry list \<Rightarrow> 64 word \<Rightarrow> hx_entry option" where
  "hx_context_find_entry hx_ctx c = find (\<lambda>e. cuuid e = c) hx_ctx"

text \<open>
  The loop over the links of a program. \<open>success |= AudioLoad(...)\<close> makes \<open>success\<close>
  true for every return value other than 0.
\<close>

fun QueueAudioEntry_links ::
  "hx_entry list \<Rightarrow> 64 word list \<Rightarrow> bool \<Rightarrow> player \<Rightarrow> fault + (bool \<times> player)" where
  "QueueAudioEntry_links hx_ctx [] success st = Inr (success, st)"
| "QueueAudioEntry_links hx_ctx (l # ls) success st =
     (case hx_context_find_entry hx_ctx l of
        None \<Rightarrow> QueueAudioEntry_links hx_ctx ls success st
      | Some link \<Rightarrow>
          (case entry_data link of
             WavResourceData default_cuuid \<Rightarrow>
               (case hx_context_find_entry hx_ctx default_cuuid of
                  None \<Rightarrow> QueueAudioEntry_links hx_ctx ls success st
                | Some link2 \<Rightarrow>
                    (case entry_data link2 of
                       WaveFileIdObject audio_stream \<Rightarrow>
                         (case AudioLoad audio_stream st of
                            (r, st1) \<Rightarrow> QueueAudioEntry_links hx_ctx ls (success \<or> r \<noteq> 0) st1)
                     | _ \<Rightarrow> Inl Bad_cast))
           | _ \<Rightarrow> Inl Bad_cast))"

definition QueueAudioEntry ::
  "libhx2 \<Rightarrow> bool \<Rightarrow> hx_entry list \<Rightarrow> hx_entry \<Rightarrow> player \<Rightarrow> fault + player" where
  "QueueAudioEntry lib dev_ok hx_ctx e st =
     (case entry_data e of
        EventResourceData lnk \<Rightarrow>
          (case hx_context_find_entry hx_ctx lnk of
             None \<Rightarrow> Inr st
           | Some link \<Rightarrow>
               (case entry_data link of
                  WavResourceData default_cuuid \<Rightarrow>
                    (case hx_context_find_entry hx_ctx default_cuuid of
                       None \<Rightarrow> Inr st
                     | Some link2 \<Rightarrow>
                         (case entry_data link2 of
                            WaveFileIdObject audio_stream \<Rightarrow>
                              (case AudioLoad audio_stream st of
                                 (r, st1) \<Rightarrow>
                                   if r \<noteq> 0
                                   then Inr (AudioPlay lib dev_ok (st1\<lparr>PlayingEvent := Some (cuuid e)\<rparr>))
                                   else Inr st1)
                          | _ \<Rightarrow> Inl Bad_cast))
                | ProgramResourceData lnks \<Rightarrow>
                    if 0 < length lnks then
                      (case QueueAudioEntry_links hx_ctx lnks False st of
                         Inl f \<Rightarrow> Inl f
                       | Inr (success, st1) \<Rightarrow>
                           if success
                           then Inr (AudioPlay lib dev_ok (st1\<lparr>PlayingEvent := Some (cuuid e)\<rparr>))
                           else Inr st1)
                    else Inr st
                | _ \<Rightarrow> Inr st))
      | _ \<Rightarrow> Inr st)"

subsection \<open>Sequences of operations\<close>






subsection \<open>Predicates of the statements\<close>






text \<open>
  The streams that the links of a program resolve to, in the words of the spec (4.1):
  each link is looked up, then the default link of that wave resource; a link that does
  not resolve is skipped.
\<close>

definition resolve_wave :: "hx_entry list \<Rightarrow> 64 word \<Rightarrow> hx_audio_stream option" where
  "resolve_wave hx_ctx l =
     (case hx_context_find_entry hx_ctx l of
        None \<Rightarrow> None
      | Some link \<Rightarrow>
          (case entry_data link of
             WavResourceData default_cuuid \<Rightarrow>
               (case hx_context_find_entry hx_ctx default_cuuid of
                  None \<Rightarrow> None
                | Some link2 \<Rightarrow>
                    (case entry_data link2 of WaveFileIdObject s \<Rightarrow> Some s | _ \<Rightarrow> None))
           | _ \<Rightarrow> None))"

definition resolve_program :: "hx_entry list \<Rightarrow> 64 word list \<Rightarrow> hx_audio_stream list" where
  "resolve_program hx_ctx lnks = List.map_filter (resolve_wave hx_ctx) lnks"

text \<open>
  The links of a program are well typed when each one that is found is a wave resource
  whose default link, when found, is a wave file object.
\<close>

definition link_typed :: "hx_entry list \<Rightarrow> 64 word \<Rightarrow> bool" where
  "link_typed hx_ctx l =
     (case hx_context_find_entry hx_ctx l of
        None \<Rightarrow> True
      | Some link \<Rightarrow>
          (case entry_data link of
             WavResourceData default_cuuid \<Rightarrow>
               (case hx_context_find_entry hx_ctx default_cuuid of
                  None \<Rightarrow> True
                | Some link2 \<Rightarrow>
                    (case entry_data link2 of WaveFileIdObject s \<Rightarrow> True | _ \<Rightarrow> False))
           | _ \<Rightarrow> False))"

text \<open>
  \<open>AudioLength_after L ps\<close> is \<open>AudioLength\<close> after \<open>AudioPlay\<close> has added the
  sizes of the converted streams \<open>ps\<close> to \<open>L\<close>, one at a time as the loop does.
  \<open>AudioLoad_all\<close> loads one stream after the other.
\<close>

definition AudioLength_after :: "int \<Rightarrow> hx_audio_stream list \<Rightarrow> int" where
  "AudioLength_after L ps = foldl (\<lambda>n p. sint (word_of_int n + size p)) L ps"

definition AudioLoad_all :: "hx_audio_stream list \<Rightarrow> player \<Rightarrow> player" where
  "AudioLoad_all xs st = foldl (\<lambda>st1 s. snd (AudioLoad s st1)) st xs"

subsection \<open>Concrete states\<close>

text \<open>The player as the program starts it, and a loaded PCM stream with given bytes.\<close>

definition initial_player :: player where
  "initial_player =
     \<lparr>AudioLength = 0, AudioPosition = 0, AudioPositionTotal = 0, AudioQueueIndex = 0,
      AudioRepeat = False, AudioSampleRate = 0, AudioChannelCount = 0,
      AudioQueue = [], AudioSwapQueue = [], Log = [],
      SDL_GetAudioStatus = SDL_AUDIO_STOPPED, Released = [], PlayingEvent = None\<rparr>"

definition stream_of :: "hx_format \<Rightarrow> 64 word \<Rightarrow> 8 word list \<Rightarrow> hx_audio_stream" where
  "stream_of f c bytes =
     \<lparr>info = \<lparr>fmt = f, num_channels = 1, sample_rate = 44100\<rparr>,
      size = word_of_nat (length bytes), data = Some bytes, wavefile_cuuid = c\<rparr>"

definition no_codecs :: libhx2 where
  "no_codecs = \<lparr>transform = (\<lambda>s f. None), hx_format_name = (\<lambda>f. ''?'')\<rparr>"

text \<open>
  A resource file with one event: the event 1 links to the program 2, whose links are the
  wave resources 3 and 4 and, between them, the cuuid 99 that no entry has. The default
  links 5 and 6 of the wave resources are wave file objects.
\<close>

definition example_ctx :: "hx_entry list" where
  "example_ctx =
     [\<lparr>cuuid = 1, entry_data = EventResourceData 2\<rparr>,
      \<lparr>cuuid = 2, entry_data = ProgramResourceData [3, 99, 4]\<rparr>,
      \<lparr>cuuid = 3, entry_data = WavResourceData 5\<rparr>,
      \<lparr>cuuid = 4, entry_data = WavResourceData 6\<rparr>,
      \<lparr>cuuid = 5, entry_data = WaveFileIdObject (stream_of HX_FORMAT_PCM 5 [1, 2])\<rparr>,
      \<lparr>cuuid = 6, entry_data = WaveFileIdObject (stream_of HX_FORMAT_PCM 6 [3, 4, 5, 6])\<rparr>]"


section \<open>Properties\<close>

subsection \<open>Fields after AudioClear and the device calls\<close>




subsection \<open>Conversions between int and unsigned int\<close>









subsection \<open>AudioClear\<close>



subsection \<open>AudioLoad\<close>






subsection \<open>AudioCallback: faults and the end of the queue\<close>







subsection \<open>The counters along a run\<close>









subsection \<open>A cycle of the queue and the repeat\<close>













subsection \<open>AudioPlay\<close>

lemma AudioLength_after_simps:
  "AudioLength_after L [] = L"
  "AudioLength_after L (p # ps) = AudioLength_after (sint (word_of_int L + size p)) ps"
  by (simp_all add: AudioLength_after_def)

lemma AudioPlay_loop_converted:
  assumes "\<forall>s\<in>set xs. hx_audio_convert lib s HX_FORMAT_PCM = Inr (f s)"
    and "AudioQueue st = xs @ ys"
  shows "\<exists>audio'. AudioPlay_loop lib xs audio st =
           Inr (audio', st\<lparr>AudioLength := AudioLength_after (AudioLength st) (map f xs),
                           AudioQueue := ys @ map f xs\<rparr>)"
  using assms
proof (induction xs arbitrary: st ys audio)
  case Nil
  then have "st\<lparr>AudioLength := AudioLength st, AudioQueue := ys\<rparr> = st"
    by (intro player.equality) simp_all
  then show ?case by (simp add: AudioLength_after_simps)
next
  case (Cons x xs)
  define st1 where "st1 = st\<lparr>AudioLength := sint (word_of_int (AudioLength st) + size (f x)),
                AudioQueue := tl (AudioQueue st) @ [f x]\<rparr>"
  define a1 where "a1 = audio\<lparr>channels := word_of_int (num_channels (info (f x))),
                   freq := sample_rate (info (f x))\<rparr>"
  have cx: "hx_audio_convert lib x HX_FORMAT_PCM = Inr (f x)" using Cons.prems by simp
  have q1: "AudioQueue st1 = xs @ (ys @ [f x])" using Cons.prems by (simp add: st1_def)
  have "\<exists>audio'. AudioPlay_loop lib xs a1 st1 =
           Inr (audio', st1\<lparr>AudioLength := AudioLength_after (AudioLength st1) (map f xs),
                           AudioQueue := (ys @ [f x]) @ map f xs\<rparr>)"
    using Cons.prems q1 by (intro Cons.IH) simp_all
  then obtain audio' where "AudioPlay_loop lib xs a1 st1 =
           Inr (audio', st1\<lparr>AudioLength := AudioLength_after (AudioLength st1) (map f xs),
                           AudioQueue := (ys @ [f x]) @ map f xs\<rparr>)" ..
  moreover have "st1\<lparr>AudioLength := AudioLength_after (AudioLength st1) (map f xs),
                           AudioQueue := (ys @ [f x]) @ map f xs\<rparr>
      = st\<lparr>AudioLength := AudioLength_after (AudioLength st) (map f (x # xs)),
                           AudioQueue := ys @ map f (x # xs)\<rparr>"
    by (simp add: st1_def AudioLength_after_simps)
  moreover have "AudioPlay_loop lib (x # xs) audio st = AudioPlay_loop lib xs a1 st1"
    by (simp add: cx st1_def a1_def)
  ultimately show ?case by simp
qed

lemma AudioPlay_loop_fails:
  assumes "\<forall>s\<in>set pre. hx_audio_convert lib s HX_FORMAT_PCM = Inr (f s)"
    and "hx_audio_convert lib bad HX_FORMAT_PCM = Inl e"
    and "AudioQueue st = pre @ bad # post"
  shows "AudioPlay_loop lib (pre @ bad # later) audio st =
           Inl (st\<lparr>AudioLength := AudioLength_after (AudioLength st) (map f pre),
                   AudioQueue := bad # post @ map f pre,
                   Log := Log st @
                     [(Error, ''failed to load audio stream: unsupported codec '' @
                              hx_format_name lib (fmt (info bad)))]\<rparr>)"
  using assms
proof (induction pre arbitrary: st post audio)
  case Nil
  then have "st\<lparr>AudioLength := AudioLength st, AudioQueue := bad # post,
        Log := Log st @ [(Error, ''failed to load audio stream: unsupported codec '' @
                              hx_format_name lib (fmt (info bad)))]\<rparr>
      = st\<lparr>Log := Log st @ [(Error, ''failed to load audio stream: unsupported codec '' @
                              hx_format_name lib (fmt (info bad)))]\<rparr>"
    by (intro player.equality) simp_all
  with Nil show ?case by (simp add: AudioLength_after_simps)
next
  case (Cons x xs)
  define st1 where "st1 = st\<lparr>AudioLength := sint (word_of_int (AudioLength st) + size (f x)),
                AudioQueue := tl (AudioQueue st) @ [f x]\<rparr>"
  define a1 where "a1 = audio\<lparr>channels := word_of_int (num_channels (info (f x))),
                   freq := sample_rate (info (f x))\<rparr>"
  have cx: "hx_audio_convert lib x HX_FORMAT_PCM = Inr (f x)" using Cons.prems by simp
  have q1: "AudioQueue st1 = xs @ bad # (post @ [f x])" using Cons.prems by (simp add: st1_def)
  have "AudioPlay_loop lib (xs @ bad # later) a1 st1 =
           Inl (st1\<lparr>AudioLength := AudioLength_after (AudioLength st1) (map f xs),
                   AudioQueue := bad # (post @ [f x]) @ map f xs,
                   Log := Log st1 @
                     [(Error, ''failed to load audio stream: unsupported codec '' @
                              hx_format_name lib (fmt (info bad)))]\<rparr>)"
    using Cons.prems q1 by (intro Cons.IH) simp_all
  moreover have "st1\<lparr>AudioLength := AudioLength_after (AudioLength st1) (map f xs),
                   AudioQueue := bad # (post @ [f x]) @ map f xs,
                   Log := Log st1 @
                     [(Error, ''failed to load audio stream: unsupported codec '' @
                              hx_format_name lib (fmt (info bad)))]\<rparr>
      = st\<lparr>AudioLength := AudioLength_after (AudioLength st) (map f (x # xs)),
                   AudioQueue := bad # post @ map f (x # xs),
                   Log := Log st @
                     [(Error, ''failed to load audio stream: unsupported codec '' @
                              hx_format_name lib (fmt (info bad)))]\<rparr>"
    by (simp add: st1_def AudioLength_after_simps)
  moreover have "AudioPlay_loop lib ((x # xs) @ bad # later) audio st =
      AudioPlay_loop lib (xs @ bad # later) a1 st1"
    by (simp add: cx st1_def a1_def)
  ultimately show ?case by simp
qed

text \<open>
  Claim C3, as the code has it. When the conversion of one enqueued stream fails,
  \<open>AudioPlay\<close> logs the error and returns at once: the device is not opened, so no
  stream of the batch plays; the streams before the failing one have been converted and
  moved to the tail, and the failing stream stays in the queue, now at its head.
\<close>

theorem AudioPlay_conversion_failure:
  assumes "AudioQueue st = pre @ bad # post"
    and "\<forall>s\<in>set pre. hx_audio_convert lib s HX_FORMAT_PCM = Inr (f s)"
    and "hx_audio_convert lib bad HX_FORMAT_PCM = Inl e"
    and "SDL_GetAudioStatus st \<noteq> SDL_AUDIO_PLAYING"
  shows "AudioPlay lib dev_ok st =
           st\<lparr>AudioLength := AudioLength_after (AudioLength st) (map f pre),
              AudioQueue := bad # post @ map f pre,
              Log := Log st @
                [(Error, ''failed to load audio stream: unsupported codec '' @
                         hx_format_name lib (fmt (info bad)))]\<rparr> \<and>
         SDL_GetAudioStatus (AudioPlay lib dev_ok st) = SDL_GetAudioStatus st \<and>
         bad \<in> set (AudioQueue (AudioPlay lib dev_ok st))"
proof -
  have "AudioPlay_loop lib (AudioQueue st) \<lparr>freq = 0, channels = 0\<rparr> st =
           Inl (st\<lparr>AudioLength := AudioLength_after (AudioLength st) (map f pre),
                   AudioQueue := bad # post @ map f pre,
                   Log := Log st @
                     [(Error, ''failed to load audio stream: unsupported codec '' @
                              hx_format_name lib (fmt (info bad)))]\<rparr>)"
    unfolding assms(1) using assms(2,3,1) by (rule AudioPlay_loop_fails)
  with assms(4) show ?thesis by (simp add: AudioPlay_def)
qed

theorem AudioPlay_conversion_failure_witness:
  "AudioPlay no_codecs True
     (initial_player\<lparr>AudioQueue := [stream_of HX_FORMAT_PCM 1 [1, 2],
                                     stream_of HX_FORMAT_DSP 2 [7, 7, 7],
                                     stream_of HX_FORMAT_PCM 3 [3, 4, 5, 6]]\<rparr>) =
   initial_player\<lparr>AudioLength := 2,
                  AudioQueue := [stream_of HX_FORMAT_DSP 2 [7, 7, 7],
                                 stream_of HX_FORMAT_PCM 3 [3, 4, 5, 6],
                                 stream_of HX_FORMAT_PCM 1 [1, 2]],
                  Log := [(Error, ''failed to load audio stream: unsupported codec ?'')]\<rparr>"
proof -
  let ?st = "initial_player\<lparr>AudioQueue := [stream_of HX_FORMAT_PCM 1 [1, 2],
                                     stream_of HX_FORMAT_DSP 2 [7, 7, 7],
                                     stream_of HX_FORMAT_PCM 3 [3, 4, 5, 6]]\<rparr>"
  have h1: "AudioQueue ?st = [stream_of HX_FORMAT_PCM 1 [1, 2]] @
      stream_of HX_FORMAT_DSP 2 [7, 7, 7] # [stream_of HX_FORMAT_PCM 3 [3, 4, 5, 6]]"
    by (simp add: initial_player_def)
  have h2: "\<forall>s\<in>set [stream_of HX_FORMAT_PCM 1 [1, 2]].
      hx_audio_convert no_codecs s HX_FORMAT_PCM = Inr ((\<lambda>s. s) s)"
    by (simp add: hx_audio_convert_def stream_of_def)
  have h3: "hx_audio_convert no_codecs (stream_of HX_FORMAT_DSP 2 [7, 7, 7]) HX_FORMAT_PCM =
      Inl (UnsupportedCodec HX_FORMAT_DSP)"
    by (simp add: hx_audio_convert_def stream_of_def no_codecs_def)
  have h4: "SDL_GetAudioStatus ?st \<noteq> SDL_AUDIO_PLAYING" by (simp add: initial_player_def)
  have l: "AudioLength_after 0 [stream_of HX_FORMAT_PCM 1 [1, 2]] = 2"
    by (simp add: AudioLength_after_def stream_of_def)
  from AudioPlay_conversion_failure [OF h1 h2 h3 h4, of True, THEN conjunct1]
  show ?thesis by (simp add: l initial_player_def no_codecs_def)
qed

text \<open>
  The claim as first stated has the siblings play. With a DSP stream between two PCM
  streams and no codec for it, the device is still stopped after \<open>AudioPlay\<close> and the
  DSP stream is still queued.
\<close>

theorem AudioPlay_aborts_counterexample:
  "SDL_GetAudioStatus (AudioPlay no_codecs True (AudioLoad_all
      [stream_of HX_FORMAT_PCM 1 [1, 2], stream_of HX_FORMAT_DSP 2 [7, 7, 7],
       stream_of HX_FORMAT_PCM 3 [3, 4, 5, 6]] initial_player)) = SDL_AUDIO_STOPPED \<and>
   AudioQueue (AudioPlay no_codecs True (AudioLoad_all
      [stream_of HX_FORMAT_PCM 1 [1, 2], stream_of HX_FORMAT_DSP 2 [7, 7, 7],
       stream_of HX_FORMAT_PCM 3 [3, 4, 5, 6]] initial_player)) =
     [stream_of HX_FORMAT_DSP 2 [7, 7, 7], stream_of HX_FORMAT_PCM 3 [3, 4, 5, 6],
      stream_of HX_FORMAT_PCM 1 [1, 2]]"
  by code_simp

text \<open>
  Claim C9. Converting a stream to its own format gives the stream itself, buffer and
  all; and \<open>AudioPlay\<close>, which converts every queued stream to PCM, leaves a queue of
  PCM streams as it was, each stream with its buffer, in the same order, and adds their
  sizes to the queued length.
\<close>

theorem convert_same_format:
  assumes "\<forall>s\<in>set (AudioQueue st). fmt (info s) = HX_FORMAT_PCM"
    and "SDL_GetAudioStatus st \<noteq> SDL_AUDIO_PLAYING"
  shows "hx_audio_convert lib s (fmt (info s)) = Inr s \<and>
         AudioQueue (AudioPlay lib dev_ok st) = AudioQueue st \<and>
         AudioLength (AudioPlay lib dev_ok st) =
           AudioLength_after (AudioLength st) (AudioQueue st)"
proof -
  have "\<forall>s\<in>set (AudioQueue st). hx_audio_convert lib s HX_FORMAT_PCM = Inr ((\<lambda>s. s) s)"
    using assms(1) by (simp add: hx_audio_convert_def)
  moreover have "AudioQueue st = AudioQueue st @ []" by simp
  ultimately have "\<exists>audio'. AudioPlay_loop lib (AudioQueue st) \<lparr>freq = 0, channels = 0\<rparr> st =
           Inr (audio', st\<lparr>AudioLength := AudioLength_after (AudioLength st) (map (\<lambda>s. s) (AudioQueue st)),
                           AudioQueue := [] @ map (\<lambda>s. s) (AudioQueue st)\<rparr>)"
    by (rule AudioPlay_loop_converted)
  then obtain audio' where "AudioPlay_loop lib (AudioQueue st) \<lparr>freq = 0, channels = 0\<rparr> st =
           Inr (audio', st\<lparr>AudioLength := AudioLength_after (AudioLength st) (AudioQueue st),
                           AudioQueue := AudioQueue st\<rparr>)" by auto
  with assms(2) have "AudioQueue (AudioPlay lib dev_ok st) = AudioQueue st \<and>
         AudioLength (AudioPlay lib dev_ok st) =
           AudioLength_after (AudioLength st) (AudioQueue st)"
    by (simp add: AudioPlay_def Let_def SDL_OpenAudio_def SDL_PauseAudio_def split: option.splits)
  then show ?thesis by (simp add: hx_audio_convert_def)
qed

theorem convert_same_format_witness:
  "hx_audio_convert no_codecs (stream_of HX_FORMAT_PCM 1 [1, 2]) HX_FORMAT_PCM =
     Inr (stream_of HX_FORMAT_PCM 1 [1, 2]) \<and>
   AudioQueue (AudioPlay no_codecs True
     (initial_player\<lparr>AudioQueue := [stream_of HX_FORMAT_PCM 1 [1, 2],
                                     stream_of HX_FORMAT_PCM 2 [3, 4, 5, 6]]\<rparr>)) =
     [stream_of HX_FORMAT_PCM 1 [1, 2], stream_of HX_FORMAT_PCM 2 [3, 4, 5, 6]]"
  using convert_same_format [of "initial_player\<lparr>AudioQueue := [stream_of HX_FORMAT_PCM 1 [1, 2],
                                     stream_of HX_FORMAT_PCM 2 [3, 4, 5, 6]]\<rparr>"
      no_codecs "stream_of HX_FORMAT_PCM 1 [1, 2]" True]
  by (simp add: initial_player_def stream_of_def)

subsection \<open>The links of a program\<close>

lemma resolve_program_simps:
  "resolve_program ctx [] = []"
  "resolve_program ctx (l # ls) =
     (case resolve_wave ctx l of None \<Rightarrow> resolve_program ctx ls
      | Some s \<Rightarrow> s # resolve_program ctx ls)"
  by (simp_all add: resolve_program_def map_filter_simps split: option.splits)

lemma AudioLoad_all_simps:
  "AudioLoad_all [] st = st"
  "AudioLoad_all (x # xs) st = AudioLoad_all xs (snd (AudioLoad x st))"
  by (simp_all add: AudioLoad_all_def)

lemma AudioLoad_nonzero: "fst (AudioLoad s st) \<noteq> 0"
  by (simp add: AudioLoad_def Let_def split: option.splits)

lemma QueueAudioEntry_links_eq:
  assumes "\<forall>l\<in>set lnks. link_typed ctx l"
  shows "QueueAudioEntry_links ctx lnks success st =
           Inr (success \<or> resolve_program ctx lnks \<noteq> [],
                AudioLoad_all (resolve_program ctx lnks) st)"
  using assms
proof (induction lnks arbitrary: success st)
  case Nil
  then show ?case by (simp add: resolve_program_simps AudioLoad_all_simps)
next
  case (Cons l ls)
  then have t: "link_typed ctx l" and ih: "\<And>success st. QueueAudioEntry_links ctx ls success st =
           Inr (success \<or> resolve_program ctx ls \<noteq> [],
                AudioLoad_all (resolve_program ctx ls) st)" by simp_all
  show ?case
  proof (cases "resolve_wave ctx l")
    case None
    with t show ?thesis
      by (auto simp: ih resolve_program_simps resolve_wave_def link_typed_def
          split: option.splits hx_data.splits)
  next
    case (Some s)
    then show ?thesis
      using AudioLoad_nonzero [of s st]
      by (auto simp: ih resolve_program_simps AudioLoad_all_simps resolve_wave_def
          split: option.splits hx_data.splits prod.splits)
  qed
qed

lemma AudioLoad_all_stopped:
  assumes "SDL_GetAudioStatus st = SDL_AUDIO_STOPPED"
  shows "AudioQueue (AudioLoad_all rs st) = AudioQueue st @ filter (\<lambda>s. data s \<noteq> None) rs \<and>
         Log (AudioLoad_all rs st) = Log st @
           map (\<lambda>s. (Error, ''failed to load audio stream: data not loaded!''))
             (filter (\<lambda>s. data s = None) rs)"
  using assms
proof (induction rs arbitrary: st)
  case Nil
  then show ?case by (simp add: AudioLoad_all_simps)
next
  case (Cons r rs)
  have "SDL_GetAudioStatus (snd (AudioLoad r st)) = SDL_AUDIO_STOPPED"
    using Cons.prems by (simp add: AudioLoad_def split: option.splits)
  from Cons.IH [OF this] Cons.prems show ?case
    by (auto simp: AudioLoad_all_simps AudioLoad_def split: option.splits)
qed

lemma AudioLoad_all_queue:
  "AudioQueue (AudioLoad_all rs st) =
     (if SDL_GetAudioStatus st = SDL_AUDIO_STOPPED \<or> rs = [] then AudioQueue st else []) @
     filter (\<lambda>s. data s \<noteq> None) rs \<and>
   Log (AudioLoad_all rs st) = Log st @
     map (\<lambda>s. (Error, ''failed to load audio stream: data not loaded!''))
       (filter (\<lambda>s. data s = None) rs)"
proof (cases "SDL_GetAudioStatus st = SDL_AUDIO_STOPPED")
  case True
  then show ?thesis using AudioLoad_all_stopped [of st rs] by simp
next
  case False
  show ?thesis
  proof (cases rs)
    case Nil
    then show ?thesis by (simp add: AudioLoad_all_simps)
  next
    case (Cons r rs')
    have s: "SDL_GetAudioStatus (snd (AudioLoad r st)) = SDL_AUDIO_STOPPED"
      using False by (simp add: AudioLoad_def Let_def SDL_CloseAudio_def split: option.splits)
    from AudioLoad_all_stopped [OF s, of rs'] False Cons show ?thesis
      by (auto simp: AudioLoad_all_simps AudioLoad_def Let_def SDL_CloseAudio_def AudioClear_def
          split: option.splits)
  qed
qed

text \<open>
  Claim C8, as the code has it. For an event whose link is a program, the links of the
  program are walked in stored order; a link that does not resolve is skipped without a
  log entry and the others are still loaded; the walk succeeds, and \<open>AudioPlay\<close> is
  called, exactly when at least one link resolves; and the streams appended to the
  pending queue are the resolved ones whose data is loaded, in the order of the links.
  The only log entries are the errors of \<open>AudioLoad\<close> for resolved streams without
  data.
\<close>

theorem QueueAudioEntry_program:
  assumes "entry_data e = EventResourceData lnk"
    and "hx_context_find_entry ctx lnk = Some p"
    and "entry_data p = ProgramResourceData lnks"
    and "\<forall>l\<in>set lnks. link_typed ctx l"
  shows "QueueAudioEntry_links ctx lnks False st =
           Inr (resolve_program ctx lnks \<noteq> [], AudioLoad_all (resolve_program ctx lnks) st) \<and>
         QueueAudioEntry lib dev_ok ctx e st =
           Inr (if resolve_program ctx lnks = [] then st
                else AudioPlay lib dev_ok
                       ((AudioLoad_all (resolve_program ctx lnks) st)\<lparr>PlayingEvent := Some (cuuid e)\<rparr>)) \<and>
         AudioQueue (AudioLoad_all (resolve_program ctx lnks) st) =
           (if SDL_GetAudioStatus st = SDL_AUDIO_STOPPED \<or> resolve_program ctx lnks = []
            then AudioQueue st else []) @
           filter (\<lambda>s. data s \<noteq> None) (resolve_program ctx lnks) \<and>
         Log (AudioLoad_all (resolve_program ctx lnks) st) = Log st @
           map (\<lambda>s. (Error, ''failed to load audio stream: data not loaded!''))
             (filter (\<lambda>s. data s = None) (resolve_program ctx lnks))"
proof -
  have l: "QueueAudioEntry_links ctx lnks False st =
           Inr (resolve_program ctx lnks \<noteq> [], AudioLoad_all (resolve_program ctx lnks) st)"
    using QueueAudioEntry_links_eq [OF assms(4), of False st] by simp
  have "QueueAudioEntry lib dev_ok ctx e st =
           Inr (if resolve_program ctx lnks = [] then st
                else AudioPlay lib dev_ok
                       ((AudioLoad_all (resolve_program ctx lnks) st)\<lparr>PlayingEvent := Some (cuuid e)\<rparr>))"
  proof (cases "lnks = []")
    case True
    with assms(1-3) show ?thesis
      by (simp add: QueueAudioEntry_def resolve_program_simps)
  next
    case False
    with assms(1-3) l show ?thesis
      by (simp add: QueueAudioEntry_def AudioLoad_all_simps)
  qed
  with l AudioLoad_all_queue [of "resolve_program ctx lnks" st] show ?thesis by simp
qed

theorem QueueAudioEntry_program_witness:
  "resolve_program example_ctx [3, 99, 4] =
     [stream_of HX_FORMAT_PCM 5 [1, 2], stream_of HX_FORMAT_PCM 6 [3, 4, 5, 6]] \<and>
   QueueAudioEntry_links example_ctx [3, 99, 4] False initial_player =
     Inr (True, AudioLoad_all
        [stream_of HX_FORMAT_PCM 5 [1, 2], stream_of HX_FORMAT_PCM 6 [3, 4, 5, 6]] initial_player) \<and>
   AudioQueue (AudioLoad_all
        [stream_of HX_FORMAT_PCM 5 [1, 2], stream_of HX_FORMAT_PCM 6 [3, 4, 5, 6]] initial_player) =
     [stream_of HX_FORMAT_PCM 5 [1, 2], stream_of HX_FORMAT_PCM 6 [3, 4, 5, 6]]"
proof -
  have h1: "entry_data \<lparr>cuuid = 1, entry_data = EventResourceData 2\<rparr> = EventResourceData 2"
    by simp
  have h2: "hx_context_find_entry example_ctx 2 =
      Some \<lparr>cuuid = 2, entry_data = ProgramResourceData [3, 99, 4]\<rparr>"
    by (simp add: hx_context_find_entry_def example_ctx_def)
  have h3: "entry_data \<lparr>cuuid = 2, entry_data = ProgramResourceData [3, 99, 4]\<rparr> =
      ProgramResourceData [3, 99, 4]" by simp
  have h4: "\<forall>l\<in>set [3, 99, 4]. link_typed example_ctx l"
    by (simp add: link_typed_def hx_context_find_entry_def example_ctx_def)
  have r: "resolve_program example_ctx [3, 99, 4] =
     [stream_of HX_FORMAT_PCM 5 [1, 2], stream_of HX_FORMAT_PCM 6 [3, 4, 5, 6]]"
    by (simp add: resolve_program_def resolve_wave_def map_filter_simps
        hx_context_find_entry_def example_ctx_def)
  from QueueAudioEntry_program [OF h1 h2 h3 h4, of initial_player no_codecs True]
  show ?thesis unfolding r by (simp add: initial_player_def stream_of_def)
qed

text \<open>
  The claim as first stated has the skipped links logged. In the example file the link
  99 of the program has no entry; the two other streams are queued and play, and the log
  is empty.
\<close>

theorem QueueAudioEntry_silent_skip_counterexample:
  "hx_context_find_entry example_ctx 99 = None \<and>
   (case QueueAudioEntry no_codecs True example_ctx
           \<lparr>cuuid = 1, entry_data = EventResourceData 2\<rparr> initial_player of
      Inl f \<Rightarrow> False
    | Inr st' \<Rightarrow> Log st' = [] \<and> map wavefile_cuuid (AudioQueue st') = [5, 6] \<and>
                  SDL_GetAudioStatus st' = SDL_AUDIO_PLAYING)"
  by code_simp

end
